theory Spec2Isabelle
  imports Main
begin

section \<open>JavaScript values and strings\<close>

text \<open>
  The cell data, the formatter results and the column options of \<open>body.js\<close> are
  JavaScript values. The model keeps the primitive ones, with the integers for the
  numbers, and an object that is known by the text \<open>toString\<close> gives for it.
  A property that is absent from an object reads as \<open>Undefined\<close>, so an object
  with properties is a total function from property names to values; only the
  properties of the object itself are modelled, none that it inherits.
\<close>

datatype jsval = Undefined | Null | Bool bool | Num int | Str string | Obj string

type_synonym attrs = "string \<Rightarrow> jsval"

definition no_attrs :: attrs where
  "no_attrs = (\<lambda>_. Undefined)"

text \<open>Truthiness, as \<open>||\<close>, \<open>&&\<close> and \<open>if\<close> test it.\<close>

fun truthy :: "jsval \<Rightarrow> bool" where
  "truthy Undefined = False"
| "truthy Null = False"
| "truthy (Bool b) = b"
| "truthy (Num i) = (i \<noteq> 0)"
| "truthy (Str s) = (s \<noteq> [])"
| "truthy (Obj t) = True"

definition digit :: "nat \<Rightarrow> char" where
  "digit d = ''0123456789'' ! d"

fun nat_str :: "nat \<Rightarrow> string" where
  "nat_str n = (if n < 10 then [digit n] else nat_str (n div 10) @ [digit (n mod 10)])"

declare nat_str.simps [simp del]

text \<open>\<open>ToString\<close>: what \<open>v + ''\<close> and string concatenation produce.\<close>

fun to_string :: "jsval \<Rightarrow> string" where
  "to_string Undefined = ''undefined''"
| "to_string Null = ''null''"
| "to_string (Bool b) = (if b then ''true'' else ''false'')"
| "to_string (Num i) = (if i < 0 then CHR ''-'' # nat_str (nat (- i)) else nat_str (nat i))"
| "to_string (Str s) = s"
| "to_string (Obj t) = t"

text \<open>
  A property name that may be \<open>undefined\<close>: \<open>o[k]\<close> and \<open>k + '...'\<close> turn an
  undefined \<open>k\<close> into the text \<open>undefined\<close>.
\<close>

fun prop_name :: "string option \<Rightarrow> string" where
  "prop_name None = ''undefined''"
| "prop_name (Some s) = s"

text \<open>Truthiness of a string-valued property that may be unset.\<close>

fun truthy_str :: "string option \<Rightarrow> bool" where
  "truthy_str None = False"
| "truthy_str (Some s) = (s \<noteq> [])"

section \<open>Template substitution\<close>

text \<open>
  Modelled from the spec: \<open>Y.Lang.sub\<close> (\<open>fromTemplate\<close> in \<open>body.js\<close>) is not among
  the sources. The spec describes templates as strings with \<open>{token}\<close>-style
  placeholders that are substituted from a map. The model scans the string from the
  left. A placeholder is an opening brace, a non-empty run of characters other than
  \<open>|\<close> and \<open>}\<close>, an optional \<open>|\<close> with anything but a closing brace behind it, and a
  closing brace. Its name is the run without surrounding white space (a run of
  white space alone is named by its last character). A placeholder whose name has
  a defined value in the map is replaced by the text of that value; any other one
  stays as it is. Replaced text is not scanned again. Strings are ASCII, and white
  space is the space, the tab and the four line and page breaks.
\<close>

definition is_stop :: "char \<Rightarrow> bool" where
  "is_stop c = (c = CHR ''|'' \<or> c = CHR ''}'')"

definition is_ws :: "char \<Rightarrow> bool" where
  "is_ws c = (c = CHR '' '' \<or> c = CHR 0x09 \<or> c = CHR 0x0A \<or> c = CHR 0x0B
            \<or> c = CHR 0x0C \<or> c = CHR 0x0D)"

definition key_of :: "string \<Rightarrow> string" where
  "key_of seg = (let t = dropWhile is_ws seg
                 in if t = [] then [last seg] else rev (dropWhile is_ws (rev t)))"

text \<open>
  \<open>match_ph cs\<close> reads a placeholder whose opening brace has just been consumed:
  its name and the number of characters of \<open>cs\<close> it takes, closing brace included.
\<close>

definition match_ph :: "string \<Rightarrow> (string \<times> nat) option" where
  "match_ph cs =
     (let seg = takeWhile (\<lambda>c. \<not> is_stop c) cs;
          r = dropWhile (\<lambda>c. \<not> is_stop c) cs
      in if seg = [] then None
         else (case r of
                 [] \<Rightarrow> None
               | c # r' \<Rightarrow>
                   if c = CHR ''}'' then Some (key_of seg, Suc (length seg))
                   else (case dropWhile (\<lambda>c. c \<noteq> CHR ''}'') r' of
                           [] \<Rightarrow> None
                         | _ # _ \<Rightarrow>
                             Some (key_of seg,
                               Suc (Suc (length seg
                                 + length (takeWhile (\<lambda>c. c \<noteq> CHR ''}'') r')))))))"

fun sub :: "string \<Rightarrow> attrs \<Rightarrow> string" where
  "sub [] m = []"
| "sub (c # cs) m =
     (if c = CHR ''{'' then
        (case match_ph cs of
           None \<Rightarrow> c # sub cs m
         | Some (k, n) \<Rightarrow>
             (if m k = Undefined then c # take n cs else to_string (m k))
             @ sub (drop n cs) m)
      else c # sub cs m)"

text \<open>The names of the placeholders of a template, in the order of the scan.\<close>

fun placeholders :: "string \<Rightarrow> string list" where
  "placeholders [] = []"
| "placeholders (c # cs) =
     (if c = CHR ''{'' then
        (case match_ph cs of
           None \<Rightarrow> placeholders cs
         | Some (k, n) \<Rightarrow> k # placeholders (drop n cs))
      else placeholders cs)"

section \<open>Columns, formatters and the rendered body\<close>

text \<open>
  \<open>formatterData\<close> is the object a column \<open>formatter\<close> receives (\<open>o\<close> in the
  documentation of \<open>body.js\<close>): \<open>o.value\<close>, \<open>o.data\<close>, \<open>o.classnames\<close> and
  \<open>o.rowindex\<close>. The \<open>column\<close> and \<open>record\<close> members are left out: a formatter
  of the model does not change its column or its Model.

  A callable formatter may change the object it is given and returns a value; it
  may also throw, which is \<open>None\<close>. The \<open>o_data\<close> of its result is the state of
  the attribute map of the row after the call: that map is one object, shared by
  the formatters of all columns of the row.
\<close>

record formatterData =
  o_value :: jsval
  o_data :: attrs
  o_classnames :: jsval
  o_rowindex :: nat

datatype formatter =
    Template string
  | Callable "formatterData \<Rightarrow> (jsval \<times> formatterData) option"

text \<open>
  The realized body: the markup last written into the \<open><tbody>\<close> element, its
  rows, each a list of cells, and the Node cache of the library. A cell element
  has its markup and may contain a liner element. The cache holds the elements
  that have a live Node instance.
\<close>

datatype el = Td nat nat | Liner nat nat

record td =
  markup :: string
  has_liner :: bool

record world =
  content :: string
  rows :: "td list list"
  cache :: "el set"

text \<open>
  The object a \<open>nodeFormatter\<close> receives: \<open>o.value\<close>, \<open>o.td\<close>, \<open>o.cell\<close>,
  \<open>o.data\<close> and \<open>o.rowindex\<close>. A node formatter works on the realized body, so it
  takes the world and returns its result, the attribute map of the row and the
  world after the call, or throws (\<open>None\<close>).
\<close>

record nodeFormatterData =
  n_value :: jsval
  n_td :: el
  n_cell :: el
  n_data :: attrs
  n_rowindex :: nat

type_synonym nodeFormatter =
  "nodeFormatterData \<Rightarrow> world \<Rightarrow> (jsval \<times> attrs \<times> world) option"

text \<open>
  A column configuration object. \<open>index\<close> and \<open>renderToken\<close> are the
  properties \<open>index\<close> and \<open>_renderToken\<close> that the view writes into the object;
  \<open>yuid\<close> is \<open>_yuid\<close>. A property that is unset is \<open>None\<close> (or \<open>Undefined\<close>).
\<close>

record column =
  key :: "string option"
  name :: "string option"
  formatter :: "formatter option"
  nodeFormatter :: "nodeFormatter option"
  emptyCellValue :: jsval
  allowHTML :: jsval
  headers :: "string list option"
  yuid :: "string option"
  index :: "nat option"
  renderToken :: "string option"

definition blank_column :: column where
  "blank_column = \<lparr> key = None, name = None, formatter = None, nodeFormatter = None,
     emptyCellValue = Undefined, allowHTML = Undefined, headers = None, yuid = None,
     index = None, renderToken = None \<rparr>"

text \<open>\<open>col.formatter\<close> as a condition: the empty string is falsy.\<close>

fun has_formatter :: "column \<Rightarrow> bool" where
  "has_formatter col = (case formatter col of
       None \<Rightarrow> False
     | Some (Template t) \<Rightarrow> t \<noteq> []
     | Some (Callable f) \<Rightarrow> True)"

section \<open>Flattening the column configuration\<close>

text \<open>
  An entry of the \<open>columns\<close> configuration is a string or a configuration object;
  the \<open>children\<close> of an object are unset (\<open>None\<close>), an array, or some other truthy
  value. The configuration is taken as a tree: every entry is an object of its
  own, and no object is listed twice. The second argument of \<open>_parseColumns\<close> is
  the working array, which the view starts as the empty array.
\<close>

datatype 'a jsarray = NotArray | Array "'a list"

datatype config = Shorthand string | Descr column "config jsarray option"

function parseColumns :: "config jsarray \<Rightarrow> column list \<Rightarrow> column list"
  and parse_each :: "config list \<Rightarrow> column list \<Rightarrow> column list"
  and parse_entry :: "config \<Rightarrow> column list \<Rightarrow> column list"
where
  "parseColumns NotArray columns = columns"
| "parseColumns (Array data) columns = parse_each data columns"
| "parse_each [] columns = columns"
| "parse_each (e # rest) columns = parse_each rest (parse_entry e columns)"
| "parse_entry (Shorthand s) columns =
     (let col = blank_column\<lparr>key := Some s\<rparr>
      in if truthy_str (key col) \<or> has_formatter col \<or> nodeFormatter col \<noteq> None
         then columns @ [col\<lparr>index := Some (length columns)\<rparr>]
         else columns)"
| "parse_entry (Descr col children) columns =
     (if truthy_str (key col) \<or> has_formatter col \<or> nodeFormatter col \<noteq> None
      then columns @ [col\<lparr>index := Some (length columns)\<rparr>]
      else (case children of
              Some ch \<Rightarrow> parseColumns ch columns
            | None \<Rightarrow> columns))"
  by pat_completeness auto
termination
  by (relation "measure (case_sum (\<lambda>(a, _). size_jsarray size a)
        (case_sum (\<lambda>(l, _). size_list size l) (\<lambda>(e, _). size e)))") auto

text \<open>
  The flattening as the specification words it: depth first, an entry that has a
  \<open>key\<close>, a \<open>formatter\<close> or a \<open>nodeFormatter\<close> is a leaf of the output, any
  other entry stands for the leaves of its children, and has none when it has no
  children. An entry has a property when the property is set to a truthy value. The
  leaves are numbered by their position in the output.
\<close>

definition has_content :: "column \<Rightarrow> bool" where
  "has_content col = (truthy_str (key col) \<or> has_formatter col \<or> nodeFormatter col \<noteq> None)"

fun leaves :: "config \<Rightarrow> column list" where
  "leaves (Shorthand s) =
     (if has_content (blank_column\<lparr>key := Some s\<rparr>) then [blank_column\<lparr>key := Some s\<rparr>]
      else [])"
| "leaves (Descr col children) =
     (if has_content col then [col]
      else (case children of
              Some (Array data) \<Rightarrow> concat (map leaves data)
            | _ \<Rightarrow> []))"

fun flatten :: "config jsarray \<Rightarrow> column list" where
  "flatten NotArray = []"
| "flatten (Array data) = concat (map leaves data)"

definition index_from :: "nat \<Rightarrow> column list \<Rightarrow> column list" where
  "index_from n cols = map (\<lambda>(i, c). c\<lparr>index := Some i\<rparr>) (zip [n ..< n + length cols] cols)"

text \<open>
  A nested configuration: two plain keys, a group with children, an entry with
  nothing to show, an empty shorthand, a formatter-only entry that also has
  children, a group whose \<open>children\<close> is not an array, and a keyed entry with
  children.
\<close>

definition example_config :: "config jsarray" where
  "example_config = Array
     [Shorthand ''a'',
      Descr (blank_column\<lparr>name := Some ''group''\<rparr>)
        (Some (Array [Shorthand ''b'', Descr blank_column None, Shorthand '''',
                      Descr (blank_column\<lparr>formatter := Some (Template ''{value}'')\<rparr>)
                        (Some (Array [Shorthand ''z'']))])),
      Descr (blank_column\<lparr>name := Some ''odd''\<rparr>) (Some NotArray),
      Descr (blank_column\<lparr>key := Some ''c''\<rparr>) (Some (Array [Shorthand ''d'']))]"

section \<open>The row template\<close>

datatype error = TypeError | FormatterError

text \<open>\<open>Array.prototype.join\<close> on an array of strings.\<close>

fun join :: "string \<Rightarrow> string list \<Rightarrow> string" where
  "join sep [] = []"
| "join sep [x] = x"
| "join sep (x # y # ys) = x @ sep @ join sep (y # ys)"

text \<open>
  Modelled from the spec: \<open>ClassNameManager.getClassName\<close>, which the method
  \<open>getClassName\<close> of the view calls with its prefix in front of its arguments, is
  not among the sources. The spec has it join the tokens to the configured prefix;
  the separator is a dash, and an undefined token joins as the empty text.
\<close>

definition getClassName :: "string \<Rightarrow> string option list \<Rightarrow> string" where
  "getClassName pfx toks =
     join ''-'' (pfx # map (\<lambda>t. case t of None \<Rightarrow> [] | Some s \<Rightarrow> s) toks)"

definition CELL_TEMPLATE :: string where
  "CELL_TEMPLATE = ''<td headers=\"{headers}\" class=\"{classes}\">{content}</td>''"

definition ROW_TEMPLATE :: string where
  "ROW_TEMPLATE = ''<tr id=\"{clientId}\" class=\"{rowClasses}\">'' @ ''{content}'' @ ''</tr>''"

text \<open>
  The token of one column in \<open>_createRowTemplate\<close>, with the \<open>tokens\<close> object
  that counts the keys seen so far (a key that is not in it counts 0).
\<close>

definition assign_token ::
  "column \<Rightarrow> (string \<Rightarrow> nat) \<Rightarrow> string option \<times> (string \<Rightarrow> nat)" where
  "assign_token col tokens =
     (case key col of
        Some k \<Rightarrow>
          if k \<noteq> [] then
            (if tokens k \<noteq> 0 then (Some (k @ nat_str (tokens k)), tokens(k := Suc (tokens k)))
             else (Some k, tokens(k := 1)))
          else (if truthy_str (name col) then name col else yuid col, tokens)
      | None \<Rightarrow> (if truthy_str (name col) then name col else yuid col, tokens))"

text \<open>The cell markup of one column, for its token and its header ids.\<close>

definition cell_markup :: "string \<Rightarrow> column \<Rightarrow> string option \<Rightarrow> string list \<Rightarrow> string" where
  "cell_markup pfx col token hs =
     (let tokenValues = no_attrs
            (''content'' := Str (''{'' @ prop_name token @ ''}''),
             ''headers'' := Str (join '' '' hs),
             ''classes'' := Str (getClassName pfx [key col]
                                  @ '' {'' @ prop_name token @ ''-classes}''));
          tokenValues = (if nodeFormatter col \<noteq> None
                         then tokenValues(''content'' := Str '''', ''classes'' := Str '''')
                         else tokenValues)
      in sub CELL_TEMPLATE tokenValues)"

text \<open>
  The loop of \<open>_createRowTemplate\<close>: the columns still to do, the \<open>tokens\<close>
  object, the markup so far and the columns done, each with its \<open>_renderToken\<close>.
  \<open>col.headers.join\<close> throws when a column has no \<open>headers\<close>.
\<close>

fun template_loop ::
  "string \<Rightarrow> column list \<Rightarrow> (string \<Rightarrow> nat) \<Rightarrow> string \<Rightarrow> column list
     \<Rightarrow> error + (column list \<times> string)" where
  "template_loop pfx [] tokens html seen = Inr (seen, html)"
| "template_loop pfx (col # rest) tokens html seen =
     (case assign_token col tokens of
        (token, tokens') \<Rightarrow>
          (case headers col of
             None \<Rightarrow> Inl TypeError
           | Some hs \<Rightarrow>
               template_loop pfx rest tokens'
                 (html @ cell_markup pfx col token hs)
                 (seen @ [col\<lparr>renderToken := token\<rparr>])))"

text \<open>
  \<open>_createRowTemplate\<close>: the columns with their tokens and the row template
  (\<open>_rowTemplate\<close>).
\<close>

definition createRowTemplate :: "string \<Rightarrow> column list \<Rightarrow> error + (column list \<times> string)" where
  "createRowTemplate pfx columns =
     (case template_loop pfx columns (\<lambda>_. 0) [] [] of
        Inl e \<Rightarrow> Inl e
      | Inr (columns', html) \<Rightarrow>
          Inr (columns', sub ROW_TEMPLATE (no_attrs(''content'' := Str html))))"

section \<open>Rendering one row\<close>

text \<open>
  Modelled from the spec: \<open>Y.Escape.html\<close> (\<open>htmlEscape\<close> in \<open>body.js\<close>) is not
  among the sources. The spec has it escape the HTML-significant characters of the
  text of a value: the ampersand, the angle brackets, both quotes, the slash and
  the backtick, each replaced by a character reference.
\<close>

definition html_significant :: "char \<Rightarrow> bool" where
  "html_significant c = (c \<in> set [CHR ''&'', CHR ''<'', CHR ''>'', CHR 0x22, CHR 0x27,
                                   CHR ''/'', CHR 0x60])"

definition escape_char :: "char \<Rightarrow> string" where
  "escape_char c =
     (if c = CHR ''&'' then ''&amp;''
      else if c = CHR ''<'' then ''&lt;''
      else if c = CHR ''>'' then ''&gt;''
      else if c = CHR 0x22 then ''&quot;''
      else if c = CHR 0x27 then ''&#x27;''
      else if c = CHR ''/'' then ''&#x2F;''
      else if c = CHR 0x60 then ''&#x60;''
      else [c])"

definition htmlEscape :: "jsval \<Rightarrow> jsval" where
  "htmlEscape v = Str (concat (map escape_char (to_string v)))"

text \<open>
  A Model of the \<open>modelList\<close>: its attributes (\<open>getAttrs\<close> hands out a copy of
  them, \<open>get\<close> reads one) and the text \<open>toString\<close> gives for it.
\<close>

record model =
  attributes :: attrs
  text_of :: string

text \<open>
  The \<open>formatterData\<close> object as \<open>fromTemplate\<close> reads it for a formatter that
  is a template string; it has the members \<open>data\<close>, \<open>column\<close> and \<open>record\<close>
  too, which are objects.
\<close>

definition formatterData_attrs :: "formatterData \<Rightarrow> model \<Rightarrow> attrs" where
  "formatterData_attrs fd m = no_attrs
     (''value'' := o_value fd,
      ''data'' := Obj ''[object Object]'',
      ''column'' := Obj ''[object Object]'',
      ''record'' := Obj (text_of m),
      ''classnames'' := o_classnames fd,
      ''rowindex'' := Num (int (o_rowindex fd)))"

text \<open>
  The token \<open>_createRowHTML\<close> uses for a column:
  \<open>col._renderToken || col.key || col._yuid\<close>.
\<close>

definition row_token :: "column \<Rightarrow> string option" where
  "row_token col =
     (if truthy_str (renderToken col) then renderToken col
      else if truthy_str (key col) then key col
      else yuid col)"

text \<open>
  The \<open>formatterData\<close> object a formatter is given (lines 510 to 517).
\<close>

definition new_formatterData :: "jsval \<Rightarrow> attrs \<Rightarrow> nat \<Rightarrow> formatterData" where
  "new_formatterData v data idx =
     \<lparr> o_value = v, o_data = data, o_classnames = Str '''', o_rowindex = idx \<rparr>"

text \<open>
  The formatter step of one cell (lines 509 to 533): the value after the step, the
  value for the classes placeholder and the attribute map of the row after the
  step. \<open>classes0\<close> is what the classes placeholder holds before the step.
\<close>

definition format_step ::
  "column \<Rightarrow> model \<Rightarrow> nat \<Rightarrow> attrs \<Rightarrow> jsval \<Rightarrow> jsval
     \<Rightarrow> error + (jsval \<times> jsval \<times> attrs)" where
  "format_step col m idx data v classes0 =
     (case formatter col of
        None \<Rightarrow> Inr (v, classes0, data)
      | Some (Template t) \<Rightarrow>
          if t = [] then Inr (v, classes0, data)
          else Inr (Str (sub t (formatterData_attrs (new_formatterData v data idx) m)),
                    classes0, data)
      | Some (Callable f) \<Rightarrow>
          (case f (new_formatterData v data idx) of
             None \<Rightarrow> Inl FormatterError
           | Some (r, fd') \<Rightarrow>
               Inr (if r = Undefined then o_value fd' else r, o_classnames fd', o_data fd')))"

text \<open>
  The end of the loop body: the fallback to \<open>emptyCellValue\<close> (lines 535 to 537)
  and the escaping (line 539).
\<close>

definition or_emptyCellValue :: "column \<Rightarrow> jsval \<Rightarrow> jsval" where
  "or_emptyCellValue col v =
     (if v = Undefined \<or> v = Str ''''
      then (if truthy (emptyCellValue col) then emptyCellValue col else Str '''')
      else v)"

definition cell_content :: "column \<Rightarrow> jsval \<Rightarrow> jsval" where
  "cell_content col v =
     (if truthy (allowHTML col) then or_emptyCellValue col v
      else htmlEscape (or_emptyCellValue col v))"

text \<open>
  One turn of the loop of \<open>_createRowHTML\<close>: the \<open>values\<close> object and the
  attribute map \<open>data\<close> after the column.
\<close>

definition cell_step ::
  "column \<Rightarrow> model \<Rightarrow> nat \<Rightarrow> attrs \<Rightarrow> attrs \<Rightarrow> error + (attrs \<times> attrs)" where
  "cell_step col m idx data values =
     (let v = data (prop_name (key col));
          token = row_token col;
          values1 = values(prop_name token @ ''-classes'' := Str '''')
      in case format_step col m idx data v (Str '''') of
           Inl e \<Rightarrow> Inl e
         | Inr (v', classes, data') \<Rightarrow>
             Inr ((values1(prop_name token @ ''-classes'' := classes))
                    (prop_name token := cell_content col v'),
                  data'))"

fun row_loop ::
  "column list \<Rightarrow> model \<Rightarrow> nat \<Rightarrow> attrs \<Rightarrow> attrs \<Rightarrow> error + (attrs \<times> attrs)" where
  "row_loop [] m idx data values = Inr (values, data)"
| "row_loop (col # rest) m idx data values =
     (case cell_step col m idx data values of
        Inl e \<Rightarrow> Inl e
      | Inr (values', data') \<Rightarrow> row_loop rest m idx data' values')"

text \<open>
  The view, as far as rendering reads and writes it: \<open>columns\<close>, \<open>_rowTemplate\<close>,
  \<open>_cssPrefix\<close>, \<open>CLASS_ODD\<close> and \<open>CLASS_EVEN\<close>, whether a \<open>source\<close> is
  assigned, the attributes \<open>container\<close> and \<open>modelList\<close>, and the two
  subscriptions of \<open>_eventHandles\<close>.
\<close>

record view =
  columns :: "column list"
  rowTemplate :: "string option"
  cssPrefix :: string
  CLASS_ODD :: string
  CLASS_EVEN :: string
  has_source :: bool
  container :: "world option"
  modelList :: "model list option"
  columnsChange :: bool
  dataChange :: bool

text \<open>
  The \<open>values\<close> object \<open>_createRowHTML\<close> starts a row with (lines 493 and 500):
  the class of the row alone.
\<close>

definition new_values :: "view \<Rightarrow> nat \<Rightarrow> attrs" where
  "new_values v idx =
     no_attrs(''rowClasses'' := Str (if idx mod 2 \<noteq> 0 then CLASS_ODD v else CLASS_EVEN v))"

text \<open>
  \<open>_createRowHTML\<close>: the columns fill the \<open>values\<close> object from a copy of
  the attributes of the Model; the template is read last, and \<open>fromTemplate\<close>
  throws without one.
\<close>

definition createRowHTML :: "view \<Rightarrow> model \<Rightarrow> nat \<Rightarrow> error + string" where
  "createRowHTML v m idx =
     (let data = attributes m;
          values = new_values v idx
      in case row_loop (columns v) m idx data values of
           Inl e \<Rightarrow> Inl e
         | Inr (values', data') \<Rightarrow>
             (case rowTemplate v of
                None \<Rightarrow> Inl TypeError
              | Some t \<Rightarrow> Inr (sub t values')))"

text \<open>\<open>_createDataHTML\<close>: the rows of all Models, concatenated.\<close>

fun data_loop :: "view \<Rightarrow> model list \<Rightarrow> nat \<Rightarrow> string \<Rightarrow> error + string" where
  "data_loop v [] idx html = Inr html"
| "data_loop v (m # ms) idx html =
     (case createRowHTML v m idx of
        Inl e \<Rightarrow> Inl e
      | Inr row \<Rightarrow> data_loop v ms (Suc idx) (html @ row))"

definition createDataHTML :: "view \<Rightarrow> error + string" where
  "createDataHTML v =
     (case modelList v of
        None \<Rightarrow> Inr []
      | Some ms \<Rightarrow> data_loop v ms 0 [])"

section \<open>The node formatter pass\<close>

text \<open>
  Modelled from the spec: \<open>Y.one\<close>, \<open>Node.one\<close> and \<open>Node.destroy\<close> are not
  among the sources. \<open>Y.one\<close> gives the Node instance of an element and keeps it
  in the Node cache. \<open>cell.destroy(true)\<close> releases the node-level resources of
  the cell: its Node instance and those of the elements inside it leave the cache,
  and the rendered elements and their content stay as they are. Elements are known
  by their position in the body.
\<close>

definition Y_one :: "el \<Rightarrow> world \<Rightarrow> world" where
  "Y_one e w = w\<lparr>cache := insert e (cache w)\<rparr>"

definition destroy :: "nat \<Rightarrow> nat \<Rightarrow> world \<Rightarrow> world" where
  "destroy r k w = w\<lparr>cache := cache w - {Td r k, Liner r k}\<rparr>"

text \<open>\<open>tbodyNode.rows[r]\<close> and \<open>row.cells[k]\<close>: undefined out of range.\<close>

definition row_at :: "world \<Rightarrow> nat \<Rightarrow> td list option" where
  "row_at w r = (if r < length (rows w) then Some (rows w ! r) else None)"

definition cell_at :: "world \<Rightarrow> nat \<Rightarrow> nat \<Rightarrow> td option" where
  "cell_at w r k =
     (case row_at w r of
        None \<Rightarrow> None
      | Some row \<Rightarrow> if k < length row then Some (row ! k) else None)"

text \<open>
  The body of the inner loop of \<open>_applyNodeFormatters\<close> for the cell of row
  \<open>idx\<close> in column \<open>k\<close>: the attribute map of \<open>formatterData\<close> and the world
  after it.
\<close>

definition node_cell ::
  "column \<Rightarrow> nat \<Rightarrow> model \<Rightarrow> nat \<Rightarrow> attrs \<Rightarrow> world \<Rightarrow> error + (attrs \<times> world)" where
  "node_cell col k m idx data w =
     (case cell_at w idx k of
        None \<Rightarrow> Inr (data, w)
      | Some c \<Rightarrow>
          (let w1 = Y_one (Td idx k) w;
               key' = (if truthy_str (key col) then key col else yuid col);
               liner = (if has_liner c then Liner idx k else Td idx k);
               w2 = (if has_liner c then Y_one (Liner idx k) w1 else w1);
               fd = \<lparr> n_value = attributes m (prop_name key'), n_td = Td idx k,
                      n_cell = liner, n_data = data, n_rowindex = idx \<rparr>
           in case nodeFormatter col of
                None \<Rightarrow> Inl TypeError
              | Some f \<Rightarrow>
                  (case f fd w2 of
                     None \<Rightarrow> Inl FormatterError
                   | Some (keep, data', w3) \<Rightarrow>
                       Inr (data', if keep = Bool False then destroy idx k w3 else w3))))"

fun node_row ::
  "column list \<Rightarrow> nat list \<Rightarrow> model \<Rightarrow> nat \<Rightarrow> attrs \<Rightarrow> world \<Rightarrow> error + world" where
  "node_row cols [] m idx data w = Inr w"
| "node_row cols (k # ks) m idx data w =
     (if k < length cols then
        (case node_cell (cols ! k) k m idx data w of
           Inl e \<Rightarrow> Inl e
         | Inr (data', w') \<Rightarrow> node_row cols ks m idx data' w')
      else Inl TypeError)"

fun node_each ::
  "column list \<Rightarrow> nat list \<Rightarrow> model list \<Rightarrow> nat \<Rightarrow> world \<Rightarrow> error + world" where
  "node_each cols formatters [] idx w = Inr w"
| "node_each cols formatters (m # ms) idx w =
     (case (if row_at w idx \<noteq> None then node_row cols formatters m idx (attributes m) w
            else Inr w) of
        Inl e \<Rightarrow> Inl e
      | Inr w' \<Rightarrow> node_each cols formatters ms (Suc idx) w')"

definition applyNodeFormatters :: "view \<Rightarrow> world \<Rightarrow> column list \<Rightarrow> error + world" where
  "applyNodeFormatters v tbody cols =
     (let formatters = filter (\<lambda>i. nodeFormatter (cols ! i) \<noteq> None) [0 ..< length cols]
      in case modelList v of
           None \<Rightarrow> Inr tbody
         | Some ms \<Rightarrow>
             if formatters \<noteq> [] then node_each cols formatters ms 0 tbody else Inr tbody)"

section \<open>Rendering and the life of the view\<close>

text \<open>
  \<open>bindUI\<close>: the subscription to the columns of the source, and the one to the
  \<open>modelList\<close>; \<open>data.after\<close> throws when there is no \<open>modelList\<close>.
\<close>

definition bindUI :: "view \<Rightarrow> error + view" where
  "bindUI v =
     (let v1 = (if has_source v \<and> \<not> columnsChange v then v\<lparr>columnsChange := True\<rparr> else v)
      in if \<not> dataChange v1 then
           (case modelList v1 of
              None \<Rightarrow> Inl TypeError
            | Some ms \<Rightarrow> Inr (v1\<lparr>dataChange := True\<rparr>))
         else Inr v1)"

text \<open>
  Modelled from the spec: \<open>Node.setContent\<close> is not among the sources. The
  container has its markup set wholesale, replacing what it held; \<open>realize\<close> is
  what the browser makes of the markup, the rows and cells of the body.
\<close>

definition setContent :: "(string \<Rightarrow> td list list) \<Rightarrow> string \<Rightarrow> world \<Rightarrow> world" where
  "setContent realize html tbody = tbody\<lparr>content := html, rows := realize html\<rparr>"

text \<open>\<open>render\<close>: the view it returns, or the error it throws.\<close>

definition render :: "(string \<Rightarrow> td list list) \<Rightarrow> view \<Rightarrow> error + view" where
  "render realize v =
     (case createRowTemplate (cssPrefix v) (columns v) of
        Inl e \<Rightarrow> Inl e
      | Inr (cols, t) \<Rightarrow>
          (let v1 = v\<lparr>columns := cols, rowTemplate := Some t\<rparr>
           in case container v1 of
                None \<Rightarrow> bindUI v1
              | Some tbody \<Rightarrow>
                  (case modelList v1 of
                     None \<Rightarrow> bindUI v1
                   | Some ms \<Rightarrow>
                       (case createDataHTML v1 of
                          Inl e \<Rightarrow> Inl e
                        | Inr html \<Rightarrow>
                            (case applyNodeFormatters v1 (setContent realize html tbody) cols of
                               Inl e \<Rightarrow> Inl e
                             | Inr tbody' \<Rightarrow> bindUI (v1\<lparr>container := Some tbody'\<rparr>))))))"

text \<open>
  \<open>initializer\<close>, for a configuration with its \<open>columns\<close>, its \<open>cssPrefix\<close>
  (or that of its \<open>source\<close>), whether it has a \<open>source\<close>, and the attributes
  \<open>container\<close> and \<open>modelList\<close>. The prefix the class starts with is
  \<open>yui3-table\<close>.
\<close>

definition initializer ::
  "config jsarray \<Rightarrow> string option \<Rightarrow> bool \<Rightarrow> world option \<Rightarrow> model list option \<Rightarrow> view" where
  "initializer config_columns config_cssPrefix config_source tbody ms =
     (let pfx = (if truthy_str config_cssPrefix then prop_name config_cssPrefix
                 else ''yui3-table'')
      in \<lparr> columns = parseColumns config_columns [],
           rowTemplate = None,
           cssPrefix = pfx,
           CLASS_ODD = getClassName pfx [Some ''odd''],
           CLASS_EVEN = getClassName pfx [Some ''even''],
           has_source = config_source,
           container = tbody,
           modelList = ms,
           columnsChange = False,
           dataChange = False \<rparr>)"

section \<open>The placeholders the row template is expected to hold\<close>

text \<open>
  A name is plain when the scan of \<open>sub\<close> reads it back as it is written between
  braces: it is not empty, holds no \<open>|\<close> and no \<open>}\<close>, and neither starts nor ends
  with white space. A text is brace free when no placeholder can start in it.
\<close>

definition plain_name :: "string \<Rightarrow> bool" where
  "plain_name t = (t \<noteq> [] \<and> list_all (\<lambda>c. \<not> is_stop c) t
                   \<and> \<not> is_ws (hd t) \<and> \<not> is_ws (last t))"

definition brace_free :: "string \<Rightarrow> bool" where
  "brace_free s = (CHR ''{'' \<notin> set s)"

text \<open>
  The name a column's token starts from: its key, or else its name, or else its
  \<open>_yuid\<close>.
\<close>

definition base_name :: "column \<Rightarrow> string" where
  "base_name c =
     (case key c of
        Some k \<Rightarrow>
          if k \<noteq> [] then k else prop_name (if truthy_str (name c) then name c else yuid c)
      | None \<Rightarrow> prop_name (if truthy_str (name c) then name c else yuid c))"

text \<open>
  A column whose texts cannot disturb the template: the class prefix, the key and
  the header ids are brace free, and the name the token starts from is plain.
\<close>

definition plain_column :: "string \<Rightarrow> column \<Rightarrow> bool" where
  "plain_column pfx c =
     (brace_free pfx \<and> brace_free (case key c of None \<Rightarrow> [] | Some k \<Rightarrow> k)
      \<and> list_all brace_free (case headers c of None \<Rightarrow> [] | Some hs \<Rightarrow> hs)
      \<and> plain_name (base_name c))"

text \<open>
  The placeholders of the row template as the code builds it: the row identity,
  the row classes, and for every column that has no node formatter its classes
  placeholder and its content placeholder.
\<close>

definition cell_placeholders :: "column \<Rightarrow> string list" where
  "cell_placeholders c =
     (if nodeFormatter c \<noteq> None then []
      else [prop_name (renderToken c) @ ''-classes'', prop_name (renderToken c)])"

definition expected_placeholders :: "column list \<Rightarrow> string list" where
  "expected_placeholders cols =
     ''clientId'' # ''rowClasses'' # concat (map cell_placeholders cols)"

section \<open>Example views\<close>

definition empty_body :: world where
  "empty_body = \<lparr> content = [], rows = [], cache = {} \<rparr>"

text \<open>A column with a key and an empty list of header ids.\<close>

definition keyed :: "string \<Rightarrow> column" where
  "keyed k = blank_column\<lparr>key := Some k, headers := Some []\<rparr>"

text \<open>A browser that realizes no rows, for views without node formatters.\<close>

definition no_rows :: "string \<Rightarrow> td list list" where
  "no_rows html = []"

text \<open>What \<open>render\<close> left in the container: its markup, if there is a container.\<close>

definition rendered :: "error + view \<Rightarrow> error + string option" where
  "rendered r = map_sum id (\<lambda>v. map_option content (container v)) r"

definition tokens_of :: "error + view \<Rightarrow> error + string option list" where
  "tokens_of r = map_sum id (\<lambda>v. map renderToken (columns v)) r"

text \<open>
  Three columns with the keys \<open>x\<close>, \<open>x\<close> and \<open>x1\<close>, and one Model with
  \<open>x = 'A'\<close> and \<open>x1 = 'B'\<close>.
\<close>

definition repeated_key_view :: view where
  "repeated_key_view =
     initializer
       (Array [Descr (keyed ''x'') None, Descr (keyed ''x'') None, Descr (keyed ''x1'') None])
       None False (Some empty_body)
       (Some [\<lparr> attributes = no_attrs(''x'' := Str ''A'', ''x1'' := Str ''B''),
                text_of = ''model[model_1]'' \<rparr>])"

text \<open>
  A formatter that writes \<open>o.data.rowClasses = 'custom'\<close> and returns nothing, in
  the one column of a view with one Model.
\<close>

definition writes_rowClasses :: "formatterData \<Rightarrow> (jsval \<times> formatterData) option" where
  "writes_rowClasses fd =
     Some (Undefined, fd\<lparr>o_data := (o_data fd)(''rowClasses'' := Str ''custom'')\<rparr>)"

definition custom_row_view :: view where
  "custom_row_view =
     initializer
       (Array [Descr ((keyed ''name'')\<lparr>formatter := Some (Callable writes_rowClasses)\<rparr>) None])
       None False (Some empty_body)
       (Some [\<lparr> attributes = no_attrs(''name'' := Str ''Ann''),
                text_of = ''model[model_1]'' \<rparr>])"

text \<open>A view as its constructor leaves it, with no columns, for a container and a list.\<close>

definition fresh_view :: "world option \<Rightarrow> model list option \<Rightarrow> view" where
  "fresh_view tbody ms = initializer (Array []) None False tbody ms"

text \<open>Two Models: Ann, aged 30, and Bo, whose age is not set.\<close>

definition ann :: model where
  "ann = \<lparr> attributes = no_attrs(''name'' := Str ''Ann'', ''age'' := Num 30),
           text_of = ''model[model_1]'' \<rparr>"

definition bo :: model where
  "bo = \<lparr> attributes = no_attrs(''name'' := Str ''Bo''), text_of = ''model[model_2]'' \<rparr>"

text \<open>
  Formatters: one sets \<open>o.classnames\<close> and returns nothing, one changes
  \<open>o.value\<close> and returns another value, one is a template string.
\<close>

definition highlights :: "formatterData \<Rightarrow> (jsval \<times> formatterData) option" where
  "highlights fd = Some (Undefined, fd\<lparr>o_classnames := Str ''highlight''\<rparr>)"

definition prefers_return :: "formatterData \<Rightarrow> (jsval \<times> formatterData) option" where
  "prefers_return fd = Some (Str ''<b>returned</b>'', fd\<lparr>o_value := Str ''mutated''\<rparr>)"

definition highlight_col :: column where
  "highlight_col = (keyed ''name'')\<lparr>formatter := Some (Callable highlights)\<rparr>"

definition returning_col :: column where
  "returning_col = (keyed ''name'')\<lparr>formatter := Some (Callable prefers_return),
                                     allowHTML := Bool True\<rparr>"

definition template_col :: column where
  "template_col = (keyed ''name'')\<lparr>formatter := Some (Template ''{rowindex}: {value}'')\<rparr>"

definition highlight_view :: view where
  "highlight_view = initializer (Array [Descr highlight_col None]) None False
                      (Some empty_body) (Some [ann])"

text \<open>
  The columns \<open>name\<close> and \<open>age\<close> over Ann and Bo, with an \<open>emptyCellValue\<close>
  of \<open>'N/A'\<close> or of the number 0 for the age.
\<close>

definition age_col :: column where
  "age_col = (keyed ''age'')\<lparr>emptyCellValue := Str ''N/A''\<rparr>"

definition zero_col :: column where
  "zero_col = (keyed ''age'')\<lparr>emptyCellValue := Num 0, allowHTML := Bool True\<rparr>"

definition ages_view :: "column \<Rightarrow> view" where
  "ages_view c = initializer (Array [Descr (keyed ''name'') None, Descr c None]) None False
                   (Some empty_body) (Some [ann, bo])"

text \<open>A Model whose name is markup, in a view with \<open>allowHTML\<close> as given.\<close>

definition markup_model :: model where
  "markup_model = \<lparr> attributes = no_attrs(''name'' := Str ''<a href=\"/x\">R&D</a>''),
                    text_of = ''model[model_3]'' \<rparr>"

definition markup_view :: "jsval \<Rightarrow> view" where
  "markup_view allow =
     initializer (Array [Descr ((keyed ''name'')\<lparr>allowHTML := allow\<rparr>) None])
       None False (Some empty_body) (Some [markup_model])"


definition releases :: nodeFormatter where
  "releases fd w = Some (Bool False, n_data fd, w)"









text \<open>
  A body of one row with one cell that has a liner, a browser that realizes it, and
  a node formatter that writes the value into the cell and returns \<open>r\<close>.
\<close>

definition one_cell :: world where
  "one_cell = \<lparr> content = ''<tr><td><div class=\"yui3-table-liner\"></div></td></tr>'',
                 rows = [[\<lparr> markup = ''<div class=\"yui3-table-liner\"></div>'',
                            has_liner = True \<rparr>]],
                 cache = {} \<rparr>"

definition one_row :: "string \<Rightarrow> td list list" where
  "one_row html = [[\<lparr> markup = [], has_liner = True \<rparr>]]"

definition writes_cell :: "jsval \<Rightarrow> nodeFormatter" where
  "writes_cell r fd w =
     Some (r, n_data fd,
           w\<lparr>rows := [[\<lparr> markup = to_string (n_value fd), has_liner = True \<rparr>]]\<rparr>)"

definition node_col :: "nodeFormatter \<Rightarrow> column" where
  "node_col nf = (keyed ''name'')\<lparr>nodeFormatter := Some nf\<rparr>"

definition node_view :: "nodeFormatter \<Rightarrow> view" where
  "node_view nf = initializer (Array [Descr (node_col nf) None]) None False
                    (Some empty_body) (Some [ann])"

text \<open>Whether an element is in the Node cache after \<open>render\<close>, and the cells it left.\<close>

definition cached :: "error + view \<Rightarrow> el \<Rightarrow> bool" where
  "cached r e =
     (case r of
        Inl x \<Rightarrow> False
      | Inr v \<Rightarrow> (case container v of None \<Rightarrow> False | Some w \<Rightarrow> e \<in> cache w))"

definition cell_markups :: "error + view \<Rightarrow> string list list" where
  "cell_markups r =
     (case r of
        Inl x \<Rightarrow> []
      | Inr v \<Rightarrow> (case container v of None \<Rightarrow> [] | Some w \<Rightarrow> map (map markup) (rows w)))"

text \<open>
  Column lists for the template builder: one with a node formatter column, one
  with a key that holds a \<open>|\<close>; and what a build assigned and produced.
\<close>

definition node_cols :: "column list" where
  "node_cols = [keyed ''a'', (keyed ''b'')\<lparr>nodeFormatter := Some releases\<rparr>,
                (keyed ''a'')\<lparr>headers := Some [''h1'', ''h2'']\<rparr>]"

definition piped_cols :: "column list" where
  "piped_cols = [keyed ''a|b'']"

text \<open>
  The placeholders as the specification lists them: a content and a classes
  placeholder for every column, and the one for the row classes. A build meets the
  specification when the template holds exactly these.
\<close>

definition claimed_placeholders :: "column list \<Rightarrow> string list" where
  "claimed_placeholders cols =
     ''rowClasses'' #
     concat (map (\<lambda>c. [prop_name (renderToken c), prop_name (renderToken c) @ ''-classes''])
                 cols)"

definition meets_claim :: "error + (column list \<times> string) \<Rightarrow> bool" where
  "meets_claim r =
     (case r of
        Inl e \<Rightarrow> False
      | Inr (cols, t) \<Rightarrow> set (placeholders t) = set (claimed_placeholders cols))"

definition built_tokens :: "error + (column list \<times> string) \<Rightarrow> error + string option list" where
  "built_tokens r = map_sum id (\<lambda>(cols, t). map renderToken cols) r"

definition built_placeholders :: "error + (column list \<times> string) \<Rightarrow> error + string list" where
  "built_placeholders r = map_sum id (\<lambda>(cols, t). placeholders t) r"

section \<open>Properties of the flattening\<close>

lemma index_from_Nil: "index_from n [] = []"
  by (simp add: index_from_def)

lemma index_from_Cons: "index_from n (c # cs) = c\<lparr>index := Some n\<rparr> # index_from (Suc n) cs"
proof -
  have "[n ..< n + length (c # cs)] = n # [Suc n ..< Suc n + length cs]"
    by (simp add: upt_conv_Cons del: upt_Suc)
  then show ?thesis by (simp add: index_from_def)
qed

lemma index_from_append:
  "index_from n (xs @ ys) = index_from n xs @ index_from (n + length xs) ys"
  by (induction xs arbitrary: n) (simp_all add: index_from_Nil index_from_Cons)

lemma length_index_from: "length (index_from n cols) = length cols"
  by (simp add: index_from_def)

lemma index_from_nth:
  "i < length cols \<Longrightarrow> index_from n cols ! i = (cols ! i)\<lparr>index := Some (n + i)\<rparr>"
  by (simp add: index_from_def)

lemma parse_refines:
  "parseColumns data cols = cols @ index_from (length cols) (flatten data)"
  "parse_each es cols = cols @ index_from (length cols) (concat (map leaves es))"
  "parse_entry e cols = cols @ index_from (length cols) (leaves e)"
proof (induction data cols and es cols and e cols
       rule: parseColumns_parse_each_parse_entry.induct)
  case (1 cols)
  show ?case by (simp add: index_from_Nil)
next
  case (2 data cols)
  then show ?case by simp
next
  case (3 cols)
  show ?case by (simp add: index_from_Nil)
next
  case (4 e rest cols)
  then show ?case by (simp add: index_from_append length_index_from)
next
  case (5 s cols)
  show ?case
    by (simp add: has_content_def Let_def index_from_Nil index_from_Cons
             del: has_formatter.simps)
next
  case (6 col children cols)
  then show ?case
    by (cases children)
       (simp_all add: has_content_def index_from_Nil index_from_Cons
                 del: has_formatter.simps split: jsarray.splits)
qed

text \<open>
  C5. \<open>_parseColumns\<close> returns the accumulator followed by the leaves of the
  configuration: the entries that have a key, a formatter or a node formatter
  (a string shorthand read as an object with that key), depth first, an entry
  without them replaced by the leaves of its children and dropped when it has
  none. Every leaf carries its position in the output as its \<open>index\<close>. An
  argument that is not an array, or an empty one, gives the accumulator back.
\<close>

theorem parseColumns_flattens:
  "parseColumns data cols = cols @ index_from (length cols) (flatten data)
   \<and> (\<forall>i < length (flatten data).
         parseColumns data cols ! (length cols + i)
           = (flatten data ! i)\<lparr>index := Some (length cols + i)\<rparr>)
   \<and> parseColumns NotArray cols = cols
   \<and> parseColumns (Array []) cols = cols"
  by (simp add: parse_refines(1) nth_append index_from_nth index_from_Nil)

theorem parseColumns_flattens_witness:
  "length (flatten example_config) = 4
   \<and> map key (parseColumns example_config []) = [Some ''a'', Some ''b'', None, Some ''c'']
   \<and> map index (parseColumns example_config []) = [Some 0, Some 1, Some 2, Some 3]"
proof -
  have f: "flatten example_config =
     [blank_column\<lparr>key := Some ''a''\<rparr>, blank_column\<lparr>key := Some ''b''\<rparr>,
      blank_column\<lparr>formatter := Some (Template ''{value}'')\<rparr>,
      blank_column\<lparr>key := Some ''c''\<rparr>]"
    by (simp add: example_config_def has_content_def blank_column_def)
  have "parseColumns example_config []
          = [] @ index_from (length ([]::column list)) (flatten example_config)"
    using parseColumns_flattens [of example_config "[]"] by blast
  then show ?thesis
    by (simp add: f index_from_Cons index_from_Nil blank_column_def)
qed

section \<open>Properties of the row template\<close>

text \<open>
  C1. The tokens of a build are not always pairwise different. For three columns
  with the keys \<open>x\<close>, \<open>x\<close> and \<open>x1\<close>, \<open>render\<close> assigns the tokens \<open>x\<close>,
  \<open>x1\<close> and \<open>x1\<close>: the suffix of the repeated key meets the literal key. The
  row of a Model with \<open>x = 'A'\<close> and \<open>x1 = 'B'\<close> shows \<open>B\<close> in the second
  cell, which is a column for \<open>x\<close>.
\<close>

theorem repeated_key_tokens_collide:
  "tokens_of (render no_rows repeated_key_view) = Inr [Some ''x'', Some ''x1'', Some ''x1'']
   \<and> rendered (render no_rows repeated_key_view) = Inr (Some
        (''<tr id=\"{clientId}\" class=\"yui3-table-even\">''
         @ ''<td headers=\"\" class=\"yui3-table-x \">A</td>''
         @ ''<td headers=\"\" class=\"yui3-table-x \">B</td>''
         @ ''<td headers=\"\" class=\"yui3-table-x1 \">B</td>''
         @ ''</tr>''))"
  by code_simp

section \<open>Properties of rendering\<close>

text \<open>
  C2. A formatter that writes \<open>rowClasses\<close> into the attribute map it is given
  (\<open>o.data\<close>) does not change the class of the row: row 0 is rendered with the
  class of the even rows. The \<open>values\<close> object that fills the template is not
  the attribute map; for the same reason the placeholder \<open>{clientId}\<close> stays
  unfilled.
\<close>

theorem formatter_rowClasses_ignored:
  "rendered (render no_rows custom_row_view) = Inr (Some
     (''<tr id=\"{clientId}\" class=\"yui3-table-even\">''
      @ ''<td headers=\"\" class=\"yui3-table-name \">Ann</td>''
      @ ''</tr>''))"
  by code_simp

text \<open>
  C3. \<open>render\<close> throws when the view has no \<open>modelList\<close> and has not yet
  subscribed to one: \<open>bindUI\<close> calls \<open>data.after\<close> without a test. With a
  \<open>modelList\<close> and no container it returns the view and writes nothing.
\<close>

theorem render_without_modelList_throws:
  "rendered (render no_rows (fresh_view (Some empty_body) None)) = Inl TypeError
   \<and> rendered (render no_rows (fresh_view None None)) = Inl TypeError
   \<and> rendered (bindUI (fresh_view (Some empty_body) None)) = Inl TypeError
   \<and> rendered (render no_rows (fresh_view None (Some []))) = Inr None"
  by code_simp

section \<open>The placeholders of the row template\<close>

lemma sub_CELL_TEMPLATE:
  "m ''headers'' = Str h \<Longrightarrow> m ''classes'' = Str c \<Longrightarrow> m ''content'' = Str x
   \<Longrightarrow> sub CELL_TEMPLATE m
       = ''<td headers=\"'' @ h @ ''\" class=\"'' @ c @ ''\">'' @ x @ ''</td>''"
  by (simp add: CELL_TEMPLATE_def match_ph_def is_stop_def key_of_def is_ws_def)

lemma sub_ROW_TEMPLATE:
  "sub ROW_TEMPLATE (no_attrs(''content'' := Str html))
     = ''<tr id=\"{clientId}\" class=\"{rowClasses}\">'' @ html @ ''</tr>''"
  by (simp add: ROW_TEMPLATE_def match_ph_def is_stop_def key_of_def is_ws_def no_attrs_def)

lemma cell_markup_eq:
  "cell_markup pfx col token hs =
     ''<td headers=\"'' @ join '' '' hs @ ''\" class=\"''
     @ (if nodeFormatter col \<noteq> None then []
        else getClassName pfx [key col] @ '' {'' @ prop_name token @ ''-classes}'')
     @ ''\">''
     @ (if nodeFormatter col \<noteq> None then [] else ''{'' @ prop_name token @ ''}'')
     @ ''</td>''"
  by (simp add: cell_markup_def Let_def sub_CELL_TEMPLATE)

lemma placeholders_skip: "brace_free a \<Longrightarrow> placeholders (a @ b) = placeholders b"
  by (induction a) (auto simp: brace_free_def)



lemma key_of_plain: "plain_name t \<Longrightarrow> key_of t = t"
proof -
  assume p: "plain_name t"
  then obtain c cs where t: "t = c # cs" and c: "\<not> is_ws c"
    by (cases t) (auto simp: plain_name_def)
  then have d: "dropWhile is_ws t = t" by simp
  from p have "rev t \<noteq> []" and "\<not> is_ws (hd (rev t))"
    by (simp_all add: plain_name_def hd_rev)
  then have "dropWhile is_ws (rev t) = rev t"
    by (cases "rev t") auto
  with d t show ?thesis by (simp add: key_of_def Let_def)
qed

lemma match_ph_plain:
  "plain_name t \<Longrightarrow> match_ph (t @ CHR ''}'' # rest) = Some (t, Suc (length t))"
proof -
  assume p: "plain_name t"
  then have a: "\<forall>c\<in>set t. \<not> is_stop c" and ne: "t \<noteq> []"
    by (simp_all add: plain_name_def list_all_iff)
  have tw: "takeWhile (\<lambda>c. \<not> is_stop c) (t @ CHR ''}'' # rest) = t"
    using a by (simp add: takeWhile_tail is_stop_def)
  have dw: "dropWhile (\<lambda>c. \<not> is_stop c) (t @ CHR ''}'' # rest) = CHR ''}'' # rest"
    using a by (simp add: dropWhile_append3 is_stop_def)
  show ?thesis
    using ne by (simp add: match_ph_def tw dw key_of_plain [OF p])
qed

lemma placeholders_plain:
  "plain_name t \<Longrightarrow> placeholders (CHR ''{'' # t @ CHR ''}'' # rest) = t # placeholders rest"
  by (simp add: match_ph_plain)

lemma digit_plain: "d < 10 \<Longrightarrow> \<not> is_stop (digit d) \<and> \<not> is_ws (digit d)"
proof -
  assume "d < 10"
  then have "d \<in> {0, 1, 2, 3, 4, 5, 6, 7, 8, 9}" by auto
  then show ?thesis
    by (auto simp: digit_def is_stop_def is_ws_def)
qed

lemma nat_str_plain: "nat_str n \<noteq> [] \<and> (\<forall>c\<in>set (nat_str n). \<not> is_stop c \<and> \<not> is_ws c)"
proof (induction n rule: nat_str.induct)
  case (1 n)
  show ?case
  proof (cases "n < 10")
    case True
    then show ?thesis using digit_plain [of n] by (simp add: nat_str.simps [of n])
  next
    case False
    have "n mod 10 < 10" by simp
    with False 1 digit_plain [of "n mod 10"] show ?thesis
      by (simp add: nat_str.simps [of n])
  qed
qed

lemma plain_name_suffix: "plain_name k \<Longrightarrow> plain_name (k @ nat_str n)"
  using nat_str_plain [of n]
  by (auto simp: plain_name_def list_all_iff)

lemma plain_name_classes: "plain_name t \<Longrightarrow> plain_name (t @ ''-classes'')"
  by (auto simp: plain_name_def is_stop_def is_ws_def)

lemma assign_token_plain:
  "plain_name (base_name c) \<Longrightarrow> assign_token c tokens = (tok, tokens')
   \<Longrightarrow> plain_name (prop_name tok)"
proof (cases "key c")
  case None
  assume "plain_name (base_name c)" and "assign_token c tokens = (tok, tokens')"
  with None show ?thesis
    by (auto simp: assign_token_def base_name_def)
next
  case (Some k)
  assume p: "plain_name (base_name c)" and a: "assign_token c tokens = (tok, tokens')"
  show ?thesis
  proof (cases "k = []")
    case True
    with Some p a show ?thesis by (auto simp: assign_token_def base_name_def)
  next
    case False
    with Some p have pk: "plain_name k" by (simp add: base_name_def)
    from False Some a have "tok = Some k \<or> tok = Some (k @ nat_str (tokens k))"
      by (auto simp: assign_token_def split: if_splits)
    with pk show ?thesis by (auto simp: plain_name_suffix)
  qed
qed

lemma brace_free_join: "list_all brace_free hs \<Longrightarrow> brace_free (join '' '' hs)"
  by (induction "'' ''" hs rule: join.induct) (auto simp: brace_free_def)

lemma brace_free_className:
  "brace_free pfx \<Longrightarrow> brace_free (case k of None \<Rightarrow> [] | Some s \<Rightarrow> s)
   \<Longrightarrow> brace_free (getClassName pfx [k])"
  by (auto simp: getClassName_def brace_free_def split: option.splits)

lemma placeholders_text: "c \<noteq> CHR ''{'' \<Longrightarrow> placeholders (c # cs) = placeholders cs"
  by simp

lemma placeholders_classes:
  "plain_name t \<Longrightarrow>
   placeholders (CHR ''{'' # t @ CHR ''-'' # CHR ''c'' # CHR ''l'' # CHR ''a'' # CHR ''s''
                   # CHR ''s'' # CHR ''e'' # CHR ''s'' # CHR ''}'' # rest)
     = (t @ ''-classes'') # placeholders rest"
  using placeholders_plain [OF plain_name_classes, of t rest] by simp

lemma placeholders_cell_markup:
  assumes "brace_free (join '' '' hs)" and "brace_free (getClassName pfx [key c])"
    and "plain_name (prop_name tok)"
  shows "placeholders (cell_markup pfx c tok hs @ rest)
         = (if nodeFormatter c \<noteq> None then []
            else [prop_name tok @ ''-classes'', prop_name tok]) @ placeholders rest"
  using assms
  by (simp add: cell_markup_eq placeholders_text placeholders_skip placeholders_plain
        placeholders_classes del: placeholders.simps)

lemma template_loop_placeholders:
  "template_loop pfx cols tokens html seen = Inr (cols', h')
   \<Longrightarrow> list_all (plain_column pfx) cols
   \<Longrightarrow> \<exists>new frag. cols' = seen @ new \<and> h' = html @ frag
         \<and> map key new = map key cols \<and> map nodeFormatter new = map nodeFormatter cols
         \<and> (\<forall>rest. placeholders (frag @ rest)
                = concat (map cell_placeholders new) @ placeholders rest)"
proof (induction cols arbitrary: tokens html seen)
  case Nil
  then show ?case by simp
next
  case (Cons c cs)
  obtain tok tokens' where at: "assign_token c tokens = (tok, tokens')"
    by (cases "assign_token c tokens")
  from Cons.prems(1) at obtain hs where hs: "headers c = Some hs"
    by (cases "headers c") simp_all
  let ?c' = "c\<lparr>renderToken := tok\<rparr>"
  let ?cm = "cell_markup pfx c tok hs"
  from Cons.prems(1) at hs
  have run: "template_loop pfx cs tokens' (html @ ?cm) (seen @ [?c']) = Inr (cols', h')"
    by simp
  from Cons.prems(2) have pc: "plain_column pfx c" and pcs: "list_all (plain_column pfx) cs"
    by simp_all
  from Cons.IH [OF run pcs] obtain new frag where
    n: "cols' = (seen @ [?c']) @ new" and f: "h' = (html @ ?cm) @ frag"
    and k: "map key new = map key cs" and nf: "map nodeFormatter new = map nodeFormatter cs"
    and ph: "\<forall>rest. placeholders (frag @ rest)
                = concat (map cell_placeholders new) @ placeholders rest"
    by blast
  from pc hs have b1: "brace_free (join '' '' hs)"
    by (simp add: plain_column_def brace_free_join)
  from pc have b2: "brace_free (getClassName pfx [key c])"
    by (simp add: plain_column_def brace_free_className)
  from pc at have b3: "plain_name (prop_name tok)"
    by (auto simp: plain_column_def intro: assign_token_plain)
  have cm: "\<forall>rest. placeholders ((?cm @ frag) @ rest)
        = concat (map cell_placeholders (?c' # new)) @ placeholders rest"
    using placeholders_cell_markup [OF b1 b2 b3] ph
    by (simp add: cell_placeholders_def)
  show ?case
    apply (rule exI [of _ "?c' # new"])
    apply (rule exI [of _ "?cm @ frag"])
    using n f k nf cm by simp
qed

text \<open>
  C4, as the code has it. When every column is plain and has its header ids,
  the row template holds these placeholders and no other, in this order:
  \<open>clientId\<close>, \<open>rowClasses\<close>, and for every column without a node formatter
  its \<open>{token}-classes\<close> and its \<open>{token}\<close>. A column with a node formatter
  adds no placeholder. The build changes neither keys nor node formatters.
\<close>

theorem row_template_placeholders:
  "createRowTemplate pfx cols = Inr (cols', t) \<Longrightarrow> list_all (plain_column pfx) cols
   \<Longrightarrow> placeholders t = expected_placeholders cols'
       \<and> map nodeFormatter cols' = map nodeFormatter cols
       \<and> map key cols' = map key cols"
proof -
  assume c: "createRowTemplate pfx cols = Inr (cols', t)"
    and p: "list_all (plain_column pfx) cols"
  from c obtain html where tl: "template_loop pfx cols (\<lambda>_. 0) [] [] = Inr (cols', html)"
    and t: "t = sub ROW_TEMPLATE (no_attrs(''content'' := Str html))"
    by (auto simp: createRowTemplate_def split: sum.splits)
  from template_loop_placeholders [OF tl p] obtain new frag where
    n: "cols' = new" and f: "html = frag"
    and k: "map key new = map key cols"
    and nf: "map nodeFormatter new = map nodeFormatter cols"
    and ph: "\<forall>rest. placeholders (frag @ rest)
                = concat (map cell_placeholders new) @ placeholders rest"
    by auto
  have "placeholders t = ''clientId'' # ''rowClasses'' # placeholders (html @ ''</tr>'')"
    by (simp add: t sub_ROW_TEMPLATE match_ph_def is_stop_def key_of_def is_ws_def)
  also have "placeholders (html @ ''</tr>'') = concat (map cell_placeholders cols')"
    using ph n f by simp
  finally show ?thesis
    using nf k n by (simp add: expected_placeholders_def)
qed

theorem row_template_placeholders_witness:
  "list_all (plain_column ''yui3-table'') node_cols
   \<and> (\<exists>cols' t. createRowTemplate ''yui3-table'' node_cols = Inr (cols', t)
         \<and> placeholders t = expected_placeholders cols'
         \<and> placeholders t = [''clientId'', ''rowClasses'', ''a-classes'', ''a'',
                              ''a1-classes'', ''a1''])"
proof -
  have p: "list_all (plain_column ''yui3-table'') node_cols"
    by code_simp
  have "\<not> isl (createRowTemplate ''yui3-table'' node_cols)"
    by code_simp
  then obtain cols' t where c: "createRowTemplate ''yui3-table'' node_cols = Inr (cols', t)"
    by (cases "createRowTemplate ''yui3-table'' node_cols") auto
  from row_template_placeholders [OF c p]
  have e: "placeholders t = expected_placeholders cols'"
    by blast
  have "built_placeholders (createRowTemplate ''yui3-table'' node_cols)
          = Inr [''clientId'', ''rowClasses'', ''a-classes'', ''a'', ''a1-classes'', ''a1'']"
    by code_simp
  with c have "placeholders t = [''clientId'', ''rowClasses'', ''a-classes'', ''a'',
                                 ''a1-classes'', ''a1'']"
    by (simp add: built_placeholders_def)
  with p c e show ?thesis by blast
qed

text \<open>
  C4 as stated fails. The column \<open>b\<close> has a node formatter: its token \<open>b\<close> is
  assigned, and neither \<open>{b}\<close> nor \<open>{b-classes}\<close> is in the template, while
  \<open>{clientId}\<close>, which the claim does not list, is. A key with a \<open>|\<close> in it is
  assigned as the token, and the template's placeholders for it read as the part
  before the \<open>|\<close>. Neither build holds exactly the placeholders the claim lists.
\<close>

theorem nodeFormatter_column_has_no_placeholder:
  "built_tokens (createRowTemplate ''yui3-table'' node_cols)
     = Inr [Some ''a'', Some ''b'', Some ''a1'']
   \<and> built_placeholders (createRowTemplate ''yui3-table'' node_cols)
     = Inr [''clientId'', ''rowClasses'', ''a-classes'', ''a'', ''a1-classes'', ''a1'']
   \<and> \<not> meets_claim (createRowTemplate ''yui3-table'' node_cols)
   \<and> built_tokens (createRowTemplate ''yui3-table'' piped_cols) = Inr [Some ''a|b'']
   \<and> built_placeholders (createRowTemplate ''yui3-table'' piped_cols)
     = Inr [''clientId'', ''rowClasses'', ''a'', ''a'']
   \<and> \<not> meets_claim (createRowTemplate ''yui3-table'' piped_cols)"
  by code_simp

section \<open>Properties of the cell values\<close>

lemma cell_step_values:
  assumes "format_step col m idx data (data (prop_name (key col))) (Str '''') = Inr (v, cls, data')"
  shows "\<exists>values'. cell_step col m idx data vals = Inr (values', data')
           \<and> values' (prop_name (row_token col)) = cell_content col v
           \<and> values' (prop_name (row_token col) @ ''-classes'') = cls"
  using assms by (simp add: cell_step_def Let_def)

text \<open>
  C6. A callable formatter that returns a value other than \<open>undefined\<close> gives
  the cell that value, whatever it did to \<open>o.value\<close>; one that returns
  \<open>undefined\<close> gives the cell \<open>o.value\<close> as it left it. Either way the
  \<open>o.classnames\<close> it left fill the classes placeholder of the column, and the
  attribute map it left is the one the next column sees. A formatter that is a
  template string gives the cell the template filled from the formatter data, and
  the classes placeholder the \<open>classnames\<close> of that data, the empty string.
  The cell value then passes the empty-value fallback and the escaping
  (\<open>cell_content\<close>).
\<close>

theorem formatter_step_contract:
  "(formatter col = Some (Callable f)
      \<and> f (new_formatterData (data (prop_name (key col))) data idx) = Some (r, fd')
    \<longrightarrow> (\<exists>values'. cell_step col m idx data vals = Inr (values', o_data fd')
          \<and> values' (prop_name (row_token col))
              = cell_content col (if r = Undefined then o_value fd' else r)
          \<and> values' (prop_name (row_token col) @ ''-classes'') = o_classnames fd'))
   \<and> (formatter col = Some (Template t) \<and> t \<noteq> []
    \<longrightarrow> (\<exists>values'. cell_step col m idx data vals = Inr (values', data)
          \<and> values' (prop_name (row_token col))
              = cell_content col (Str (sub t (formatterData_attrs
                  (new_formatterData (data (prop_name (key col))) data idx) m)))
          \<and> values' (prop_name (row_token col) @ ''-classes'')
              = o_classnames (new_formatterData (data (prop_name (key col))) data idx)))"
proof (intro conjI impI)
  assume a: "formatter col = Some (Callable f)
      \<and> f (new_formatterData (data (prop_name (key col))) data idx) = Some (r, fd')"
  then have "format_step col m idx data (data (prop_name (key col))) (Str '''')
      = Inr (if r = Undefined then o_value fd' else r, o_classnames fd', o_data fd')"
    by (simp add: format_step_def)
  then show "\<exists>values'. cell_step col m idx data vals = Inr (values', o_data fd')
          \<and> values' (prop_name (row_token col))
              = cell_content col (if r = Undefined then o_value fd' else r)
          \<and> values' (prop_name (row_token col) @ ''-classes'') = o_classnames fd'"
    by (rule cell_step_values)
next
  assume a: "formatter col = Some (Template t) \<and> t \<noteq> []"
  let ?fd = "new_formatterData (data (prop_name (key col))) data idx"
  from a have "format_step col m idx data (data (prop_name (key col))) (Str '''')
      = Inr (Str (sub t (formatterData_attrs ?fd m)), o_classnames ?fd, data)"
    by (simp add: format_step_def new_formatterData_def)
  then show "\<exists>values'. cell_step col m idx data vals = Inr (values', data)
          \<and> values' (prop_name (row_token col))
              = cell_content col (Str (sub t (formatterData_attrs ?fd m)))
          \<and> values' (prop_name (row_token col) @ ''-classes'') = o_classnames ?fd"
    by (rule cell_step_values)
qed

theorem formatter_step_contract_witness:
  "(\<exists>values'. cell_step highlight_col ann 0 (attributes ann) no_attrs
                 = Inr (values', attributes ann)
       \<and> values' ''name'' = Str ''Ann'' \<and> values' ''name-classes'' = Str ''highlight'')
   \<and> (\<exists>values'. cell_step returning_col ann 0 (attributes ann) no_attrs
                 = Inr (values', attributes ann)
       \<and> values' ''name'' = Str ''<b>returned</b>'' \<and> values' ''name-classes'' = Str '''')
   \<and> (\<exists>values'. cell_step template_col ann 7 (attributes ann) no_attrs
                 = Inr (values', attributes ann)
       \<and> values' ''name'' = Str ''7: Ann'' \<and> values' ''name-classes'' = Str '''')
   \<and> rendered (render no_rows highlight_view) = Inr (Some
        (''<tr id=\"{clientId}\" class=\"yui3-table-even\">''
         @ ''<td headers=\"\" class=\"yui3-table-name highlight\">Ann</td>''
         @ ''</tr>''))"
proof -
  let ?fd = "new_formatterData (attributes ann (prop_name (key highlight_col))) (attributes ann) 0"
  have h1: "formatter highlight_col = Some (Callable highlights)
      \<and> highlights ?fd = Some (Undefined, ?fd\<lparr>o_classnames := Str ''highlight''\<rparr>)"
    by (simp add: highlight_col_def keyed_def highlights_def)
  have a: "\<exists>values'. cell_step highlight_col ann 0 (attributes ann) no_attrs
                 = Inr (values', attributes ann)
       \<and> values' ''name'' = Str ''Ann'' \<and> values' ''name-classes'' = Str ''highlight''"
    using formatter_step_contract [of highlight_col highlights "attributes ann" 0
        Undefined "?fd\<lparr>o_classnames := Str ''highlight''\<rparr>" ann no_attrs "[]"] h1
    by (simp add: highlight_col_def keyed_def blank_column_def row_token_def
          new_formatterData_def ann_def cell_content_def or_emptyCellValue_def
          htmlEscape_def escape_char_def)
  let ?fr = "new_formatterData (attributes ann (prop_name (key returning_col))) (attributes ann) 0"
  have h2: "formatter returning_col = Some (Callable prefers_return)
      \<and> prefers_return ?fr = Some (Str ''<b>returned</b>'', ?fr\<lparr>o_value := Str ''mutated''\<rparr>)"
    by (simp add: returning_col_def keyed_def prefers_return_def)
  have b: "\<exists>values'. cell_step returning_col ann 0 (attributes ann) no_attrs
                 = Inr (values', attributes ann)
       \<and> values' ''name'' = Str ''<b>returned</b>'' \<and> values' ''name-classes'' = Str ''''"
    using formatter_step_contract [of returning_col prefers_return "attributes ann" 0
        "Str ''<b>returned</b>''" "?fr\<lparr>o_value := Str ''mutated''\<rparr>" ann no_attrs "[]"] h2
    by (simp add: returning_col_def keyed_def blank_column_def row_token_def
          new_formatterData_def ann_def cell_content_def or_emptyCellValue_def)
  have h3: "formatter template_col = Some (Template ''{rowindex}: {value}'')
      \<and> ''{rowindex}: {value}'' \<noteq> []"
    by (simp add: template_col_def keyed_def)
  have s: "sub ''{rowindex}: {value}'' (formatterData_attrs
            (new_formatterData (attributes ann (prop_name (key template_col))) (attributes ann) 7) ann)
           = ''7: Ann''"
    by code_simp
  have "\<exists>values'. cell_step template_col ann 7 (attributes ann) no_attrs
                 = Inr (values', attributes ann)
       \<and> values' (prop_name (row_token template_col))
           = cell_content template_col (Str (sub ''{rowindex}: {value}'' (formatterData_attrs
               (new_formatterData (attributes ann (prop_name (key template_col)))
                  (attributes ann) 7) ann)))
       \<and> values' (prop_name (row_token template_col) @ ''-classes'')
           = o_classnames (new_formatterData (attributes ann (prop_name (key template_col)))
               (attributes ann) 7)"
    using formatter_step_contract [of template_col highlights "attributes ann" 7
        Undefined "new_formatterData Undefined no_attrs 0" ann no_attrs "''{rowindex}: {value}''"] h3
    by blast
  then have c: "\<exists>values'. cell_step template_col ann 7 (attributes ann) no_attrs
                 = Inr (values', attributes ann)
       \<and> values' ''name'' = Str ''7: Ann'' \<and> values' ''name-classes'' = Str ''''"
    unfolding s
    by (simp add: template_col_def keyed_def blank_column_def row_token_def
          new_formatterData_def cell_content_def or_emptyCellValue_def
          htmlEscape_def escape_char_def)
  have d: "rendered (render no_rows highlight_view) = Inr (Some
        (''<tr id=\"{clientId}\" class=\"yui3-table-even\">''
         @ ''<td headers=\"\" class=\"yui3-table-name highlight\">Ann</td>''
         @ ''</tr>''))"
    by code_simp
  from a b c d show ?thesis by blast
qed

text \<open>
  C7, as the code has it. When the value after the formatter step is the empty
  string or \<open>undefined\<close>, the content placeholder of the column is filled with
  the column's \<open>emptyCellValue\<close> if that is truthy, HTML-escaped unless
  \<open>allowHTML\<close> is set, and with the empty string otherwise.
\<close>

theorem empty_value_falls_back:
  "format_step col m idx data (data (prop_name (key col))) (Str '''') = Inr (v, cls, data')
   \<Longrightarrow> v = Undefined \<or> v = Str ''''
   \<Longrightarrow> \<exists>values'. cell_step col m idx data vals = Inr (values', data')
         \<and> values' (prop_name (row_token col))
             = (if truthy (emptyCellValue col)
                then (if truthy (allowHTML col) then emptyCellValue col
                      else htmlEscape (emptyCellValue col))
                else Str '''')"
proof -
  assume f: "format_step col m idx data (data (prop_name (key col))) (Str '''') = Inr (v, cls, data')"
    and e: "v = Undefined \<or> v = Str ''''"
  from e have "cell_content col v
             = (if truthy (emptyCellValue col)
                then (if truthy (allowHTML col) then emptyCellValue col
                      else htmlEscape (emptyCellValue col))
                else Str '''')"
    by (auto simp: cell_content_def or_emptyCellValue_def htmlEscape_def)
  with cell_step_values [OF f, of "vals"] show ?thesis by auto
qed

theorem empty_value_falls_back_witness:
  "(\<exists>values'. cell_step age_col bo 1 (attributes bo) no_attrs = Inr (values', attributes bo)
       \<and> values' ''age'' = Str ''N&#x2F;A'')
   \<and> rendered (render no_rows (ages_view age_col)) = Inr (Some
        (''<tr id=\"{clientId}\" class=\"yui3-table-even\">''
         @ ''<td headers=\"\" class=\"yui3-table-name \">Ann</td>''
         @ ''<td headers=\"\" class=\"yui3-table-age \">30</td>''
         @ ''</tr>''
         @ ''<tr id=\"{clientId}\" class=\"yui3-table-odd\">''
         @ ''<td headers=\"\" class=\"yui3-table-name \">Bo</td>''
         @ ''<td headers=\"\" class=\"yui3-table-age \">N&#x2F;A</td>''
         @ ''</tr>''))"
proof -
  have f: "format_step age_col bo 1 (attributes bo) (attributes bo (prop_name (key age_col)))
             (Str '''') = Inr (Undefined, Str '''', attributes bo)"
    by (simp add: format_step_def age_col_def keyed_def blank_column_def bo_def no_attrs_def)
  have "\<exists>values'. cell_step age_col bo 1 (attributes bo) no_attrs = Inr (values', attributes bo)
       \<and> values' ''age'' = Str ''N&#x2F;A''"
    using empty_value_falls_back [OF f, of no_attrs]
    by (simp add: age_col_def keyed_def blank_column_def row_token_def htmlEscape_def
          escape_char_def)
  moreover have "rendered (render no_rows (ages_view age_col)) = Inr (Some
        (''<tr id=\"{clientId}\" class=\"yui3-table-even\">''
         @ ''<td headers=\"\" class=\"yui3-table-name \">Ann</td>''
         @ ''<td headers=\"\" class=\"yui3-table-age \">30</td>''
         @ ''</tr>''
         @ ''<tr id=\"{clientId}\" class=\"yui3-table-odd\">''
         @ ''<td headers=\"\" class=\"yui3-table-name \">Bo</td>''
         @ ''<td headers=\"\" class=\"yui3-table-age \">N&#x2F;A</td>''
         @ ''</tr>''))"
    by code_simp
  ultimately show ?thesis by blast
qed

text \<open>
  C7 as stated fails for an \<open>emptyCellValue\<close> that is defined and falsy: with
  the number 0, whose text is \<open>0\<close>, the age cell of Bo is rendered empty.
\<close>

theorem falsy_emptyCellValue_dropped:
  "emptyCellValue zero_col = Num 0
   \<and> to_string (emptyCellValue zero_col) = ''0''
   \<and> cell_content zero_col Undefined = Str ''''
   \<and> to_string (cell_content zero_col Undefined) \<noteq> to_string (emptyCellValue zero_col)
   \<and> rendered (render no_rows (ages_view zero_col)) = Inr (Some
        (''<tr id=\"{clientId}\" class=\"yui3-table-even\">''
         @ ''<td headers=\"\" class=\"yui3-table-name \">Ann</td>''
         @ ''<td headers=\"\" class=\"yui3-table-age \">30</td>''
         @ ''</tr>''
         @ ''<tr id=\"{clientId}\" class=\"yui3-table-odd\">''
         @ ''<td headers=\"\" class=\"yui3-table-name \">Bo</td>''
         @ ''<td headers=\"\" class=\"yui3-table-age \"></td>''
         @ ''</tr>''))"
  by code_simp

lemma escape_char_plain: "\<not> html_significant c \<Longrightarrow> escape_char c = [c]"
  by (auto simp: escape_char_def html_significant_def)

lemma escape_char_reference:
  assumes "html_significant c"
  shows "\<exists>body. escape_char c = CHR ''&'' # body @ '';''
           \<and> (\<forall>c' \<in> set body. \<not> html_significant c')"
proof -
  from assms consider "c = CHR ''&''" | "c = CHR ''<''" | "c = CHR ''>''" | "c = CHR 0x22"
    | "c = CHR 0x27" | "c = CHR ''/''" | "c = CHR 0x60"
    by (auto simp: html_significant_def)
  then show ?thesis
  proof cases
    case 1
    then show ?thesis
      by (intro exI [of _ "''amp''"]) (simp add: escape_char_def html_significant_def)
  next
    case 2
    then show ?thesis
      by (intro exI [of _ "''lt''"]) (simp add: escape_char_def html_significant_def)
  next
    case 3
    then show ?thesis
      by (intro exI [of _ "''gt''"]) (simp add: escape_char_def html_significant_def)
  next
    case 4
    then show ?thesis
      by (intro exI [of _ "''quot''"]) (simp add: escape_char_def html_significant_def)
  next
    case 5
    then show ?thesis
      by (intro exI [of _ "''#x27''"]) (simp add: escape_char_def html_significant_def)
  next
    case 6
    then show ?thesis
      by (intro exI [of _ "''#x2F''"]) (simp add: escape_char_def html_significant_def)
  next
    case 7
    then show ?thesis
      by (intro exI [of _ "''#x60''"]) (simp add: escape_char_def html_significant_def)
  qed
qed

lemma escape_char_safe:
  "c' \<in> set (escape_char c) \<Longrightarrow> c' = CHR ''&'' \<or> \<not> html_significant c'"
  by (auto simp: escape_char_def html_significant_def split: if_splits)

lemma htmlEscape_safe:
  "c \<in> set (to_string (htmlEscape v)) \<Longrightarrow> c = CHR ''&'' \<or> \<not> html_significant c"
  by (auto simp: htmlEscape_def dest: escape_char_safe)

text \<open>
  C9. Without \<open>allowHTML\<close> the content of a cell is the HTML-escaped value: its
  text is the text of the value with every character replaced by its escape. The
  escape of an HTML-significant character is a character reference, an ampersand
  and a semicolon with no HTML-significant character between them; any other
  character is its own escape. So the only HTML-significant character left in the
  content is the ampersand. With \<open>allowHTML\<close> the content is the value as it is.
  The content is what fills the content placeholder of the column.
\<close>

theorem allowHTML_decides_escaping:
  "(\<not> truthy (allowHTML col) \<longrightarrow>
       cell_content col v = htmlEscape (or_emptyCellValue col v)
       \<and> to_string (cell_content col v)
           = concat (map escape_char (to_string (or_emptyCellValue col v)))
       \<and> (html_significant c \<longrightarrow>
             (\<exists>body. escape_char c = CHR ''&'' # body @ '';''
                \<and> (\<forall>c' \<in> set body. \<not> html_significant c')))
       \<and> (\<not> html_significant c \<longrightarrow> escape_char c = [c])
       \<and> (\<forall>c \<in> set (to_string (cell_content col v)). c = CHR ''&'' \<or> \<not> html_significant c))
   \<and> (truthy (allowHTML col) \<longrightarrow> cell_content col v = or_emptyCellValue col v)
   \<and> (format_step col m idx data (data (prop_name (key col))) (Str '''') = Inr (v, cls, data')
        \<longrightarrow> (\<exists>values'. cell_step col m idx data vals = Inr (values', data')
               \<and> values' (prop_name (row_token col)) = cell_content col v))"
proof (intro conjI impI)
  assume "\<not> truthy (allowHTML col)"
  then show e: "cell_content col v = htmlEscape (or_emptyCellValue col v)"
    by (simp add: cell_content_def)
  then show "to_string (cell_content col v)
           = concat (map escape_char (to_string (or_emptyCellValue col v)))"
    by (simp add: htmlEscape_def)
  from e show "\<forall>c \<in> set (to_string (cell_content col v)).
                 c = CHR ''&'' \<or> \<not> html_significant c"
    using htmlEscape_safe by auto
next
  assume "html_significant c"
  then show "\<exists>body. escape_char c = CHR ''&'' # body @ '';''
                \<and> (\<forall>c' \<in> set body. \<not> html_significant c')"
    by (rule escape_char_reference)
next
  assume "\<not> html_significant c"
  then show "escape_char c = [c]"
    by (rule escape_char_plain)
next
  assume "truthy (allowHTML col)"
  then show "cell_content col v = or_emptyCellValue col v"
    by (simp add: cell_content_def)
next
  assume "format_step col m idx data (data (prop_name (key col))) (Str '''') = Inr (v, cls, data')"
  from cell_step_values [OF this, of "vals"]
  show "\<exists>values'. cell_step col m idx data vals = Inr (values', data')
               \<and> values' (prop_name (row_token col)) = cell_content col v"
    by auto
qed

theorem allowHTML_decides_escaping_witness:
  "cell_content (keyed ''name'') (Str ''<a href=\"/x\">R&D</a>'')
     = Str ''&lt;a href=&quot;&#x2F;x&quot;&gt;R&amp;D&lt;&#x2F;a&gt;''
   \<and> cell_content ((keyed ''name'')\<lparr>allowHTML := Bool True\<rparr>) (Str ''<a href=\"/x\">R&D</a>'')
     = Str ''<a href=\"/x\">R&D</a>''
   \<and> (\<exists>body. escape_char CHR ''<'' = CHR ''&'' # body @ '';'')
   \<and> escape_char CHR ''R'' = ''R''
   \<and> (\<exists>values'. cell_step (keyed ''name'') markup_model 0 (attributes markup_model) no_attrs
                   = Inr (values', attributes markup_model)
         \<and> values' ''name'' = Str ''&lt;a href=&quot;&#x2F;x&quot;&gt;R&amp;D&lt;&#x2F;a&gt;'')
   \<and> rendered (render no_rows (markup_view Undefined)) = Inr (Some
        (''<tr id=\"{clientId}\" class=\"yui3-table-even\">''
         @ ''<td headers=\"\" class=\"yui3-table-name \">''
         @ ''&lt;a href=&quot;&#x2F;x&quot;&gt;R&amp;D&lt;&#x2F;a&gt;''
         @ ''</td></tr>''))
   \<and> rendered (render no_rows (markup_view (Bool True))) = Inr (Some
        (''<tr id=\"{clientId}\" class=\"yui3-table-even\">''
         @ ''<td headers=\"\" class=\"yui3-table-name \">''
         @ ''<a href=\"/x\">R&D</a>''
         @ ''</td></tr>''))"
proof -
  let ?v = "Str ''<a href=\"/x\">R&D</a>''"
  let ?d = "attributes markup_model"
  have n: "\<not> truthy (allowHTML (keyed ''name''))"
    by (simp add: keyed_def blank_column_def)
  have y: "truthy (allowHTML ((keyed ''name'')\<lparr>allowHTML := Bool True\<rparr>))"
    by simp
  have f: "format_step (keyed ''name'') markup_model 0 ?d (?d (prop_name (key (keyed ''name''))))
             (Str '''') = Inr (?v, Str '''', ?d)"
    by (simp add: format_step_def keyed_def blank_column_def markup_model_def)
  have sg: "html_significant CHR ''<''" and ns: "\<not> html_significant CHR ''R''"
    by (simp_all add: html_significant_def)
  note t = allowHTML_decides_escaping
             [where col = "keyed ''name''" and v = ?v and m = markup_model and idx = 0
                and data = ?d and cls = "Str ''''" and data' = ?d and vals = no_attrs]
  from t [where c = "CHR ''<''"] n
  have "to_string (cell_content (keyed ''name'') ?v)
          = concat (map escape_char (to_string (or_emptyCellValue (keyed ''name'') ?v)))"
    and "cell_content (keyed ''name'') ?v = htmlEscape (or_emptyCellValue (keyed ''name'') ?v)"
    by blast+
  then have a: "cell_content (keyed ''name'') ?v
     = Str ''&lt;a href=&quot;&#x2F;x&quot;&gt;R&amp;D&lt;&#x2F;a&gt;''"
    by (simp add: or_emptyCellValue_def htmlEscape_def escape_char_def)
  from t [where c = "CHR ''<''"] n sg
  have r1: "\<exists>body. escape_char CHR ''<'' = CHR ''&'' # body @ '';''"
    by blast
  from t [where c = "CHR ''R''"] n ns
  have r2: "escape_char CHR ''R'' = ''R''"
    by blast
  from t [where c = "CHR ''<''"] f
  have "\<exists>values'. cell_step (keyed ''name'') markup_model 0 ?d no_attrs = Inr (values', ?d)
         \<and> values' (prop_name (row_token (keyed ''name''))) = cell_content (keyed ''name'') ?v"
    by blast
  then have s: "\<exists>values'. cell_step (keyed ''name'') markup_model 0 ?d no_attrs
                   = Inr (values', ?d)
         \<and> values' ''name'' = Str ''&lt;a href=&quot;&#x2F;x&quot;&gt;R&amp;D&lt;&#x2F;a&gt;''"
    unfolding a by (simp add: row_token_def keyed_def blank_column_def)
  from allowHTML_decides_escaping
         [where col = "(keyed ''name'')\<lparr>allowHTML := Bool True\<rparr>" and v = ?v] y
  have "cell_content ((keyed ''name'')\<lparr>allowHTML := Bool True\<rparr>) ?v
      = or_emptyCellValue ((keyed ''name'')\<lparr>allowHTML := Bool True\<rparr>) ?v"
    by blast
  then have b: "cell_content ((keyed ''name'')\<lparr>allowHTML := Bool True\<rparr>) ?v = ?v"
    by (simp add: or_emptyCellValue_def)
  have c: "rendered (render no_rows (markup_view Undefined)) = Inr (Some
        (''<tr id=\"{clientId}\" class=\"yui3-table-even\">''
         @ ''<td headers=\"\" class=\"yui3-table-name \">''
         @ ''&lt;a href=&quot;&#x2F;x&quot;&gt;R&amp;D&lt;&#x2F;a&gt;''
         @ ''</td></tr>''))"
    by code_simp
  have d: "rendered (render no_rows (markup_view (Bool True))) = Inr (Some
        (''<tr id=\"{clientId}\" class=\"yui3-table-even\">''
         @ ''<td headers=\"\" class=\"yui3-table-name \">''
         @ ''<a href=\"/x\">R&D</a>''
         @ ''</td></tr>''))"
    by code_simp
  from a b r1 r2 s c d show ?thesis by blast
qed











section \<open>Properties of the node formatter pass\<close>

text \<open>
  C8. For a realized cell whose node formatter returns exactly \<open>false\<close>, the
  Node instances of the cell and of its liner leave the Node cache, and the rows
  and the markup of the body stay as the formatter left them. For any other
  result, \<open>undefined\<close> included, the world is the one the formatter left.
\<close>

theorem nodeFormatter_false_releases:
  "cell_at w idx k = Some c \<and> nodeFormatter col = Some nf
   \<and> nf \<lparr> n_value = attributes m (prop_name (if truthy_str (key col) then key col else yuid col)),
          n_td = Td idx k, n_cell = (if has_liner c then Liner idx k else Td idx k),
          n_data = data, n_rowindex = idx \<rparr>
        (if has_liner c then Y_one (Liner idx k) (Y_one (Td idx k) w) else Y_one (Td idx k) w)
      = Some (keep, data', w')
   \<longrightarrow> (keep = Bool False \<longrightarrow>
          (\<exists>w''. node_cell col k m idx data w = Inr (data', w'')
             \<and> Td idx k \<notin> cache w'' \<and> Liner idx k \<notin> cache w''
             \<and> rows w'' = rows w' \<and> content w'' = content w'
             \<and> cache w'' = cache w' - {Td idx k, Liner idx k}))
     \<and> (keep \<noteq> Bool False \<longrightarrow> node_cell col k m idx data w = Inr (data', w'))"
  by (auto simp: node_cell_def Let_def destroy_def)

theorem nodeFormatter_false_releases_witness:
  "(\<exists>w''. node_cell (node_col (writes_cell (Bool False))) 0 ann 0 (attributes ann) one_cell
            = Inr (attributes ann, w'')
       \<and> Td 0 0 \<notin> cache w'' \<and> Liner 0 0 \<notin> cache w''
       \<and> rows w'' = [[\<lparr> markup = ''Ann'', has_liner = True \<rparr>]])
   \<and> (\<exists>w'. node_cell (node_col (writes_cell Undefined)) 0 ann 0 (attributes ann) one_cell
            = Inr (attributes ann, w')
       \<and> Td 0 0 \<in> cache w' \<and> Liner 0 0 \<in> cache w'
       \<and> rows w' = [[\<lparr> markup = ''Ann'', has_liner = True \<rparr>]])
   \<and> \<not> cached (render one_row (node_view (writes_cell (Bool False)))) (Td 0 0)
   \<and> cached (render one_row (node_view (writes_cell Undefined))) (Td 0 0)
   \<and> cell_markups (render one_row (node_view (writes_cell (Bool False)))) = [[''Ann'']]"
proof -
  let ?c = "\<lparr> markup = ''<div class=\"yui3-table-liner\"></div>'', has_liner = True \<rparr>"
  let ?w2 = "Y_one (Liner 0 0) (Y_one (Td 0 0) one_cell)"
  let ?w3 = "?w2\<lparr>rows := [[\<lparr> markup = ''Ann'', has_liner = True \<rparr>]]\<rparr>"
  have h: "cell_at one_cell 0 0 = Some ?c"
    by (simp add: cell_at_def row_at_def one_cell_def)
  have f: "writes_cell r
             \<lparr> n_value = attributes ann (prop_name (if truthy_str (key (node_col (writes_cell r)))
                                                   then key (node_col (writes_cell r))
                                                   else yuid (node_col (writes_cell r)))),
               n_td = Td 0 0, n_cell = (if has_liner ?c then Liner 0 0 else Td 0 0),
               n_data = attributes ann, n_rowindex = 0 \<rparr>
             (if has_liner ?c then Y_one (Liner 0 0) (Y_one (Td 0 0) one_cell)
              else Y_one (Td 0 0) one_cell)
           = Some (r, attributes ann, ?w3)" for r
    by (simp add: writes_cell_def node_col_def keyed_def ann_def)
  have n: "nodeFormatter (node_col (writes_cell r)) = Some (writes_cell r)" for r
    by (simp add: node_col_def)
  from nodeFormatter_false_releases
         [where w = one_cell and idx = 0 and k = 0 and c = ?c
            and col = "node_col (writes_cell (Bool False))" and nf = "writes_cell (Bool False)"
            and m = ann and data = "attributes ann" and keep = "Bool False"
            and data' = "attributes ann" and w' = ?w3] h f [of "Bool False"] n
  have "\<exists>w''. node_cell (node_col (writes_cell (Bool False))) 0 ann 0 (attributes ann) one_cell
            = Inr (attributes ann, w'')
       \<and> Td 0 0 \<notin> cache w'' \<and> Liner 0 0 \<notin> cache w''
       \<and> rows w'' = rows ?w3 \<and> content w'' = content ?w3
       \<and> cache w'' = cache ?w3 - {Td 0 0, Liner 0 0}"
    by simp
  then have a: "\<exists>w''. node_cell (node_col (writes_cell (Bool False))) 0 ann 0 (attributes ann) one_cell
            = Inr (attributes ann, w'')
       \<and> Td 0 0 \<notin> cache w'' \<and> Liner 0 0 \<notin> cache w''
       \<and> rows w'' = [[\<lparr> markup = ''Ann'', has_liner = True \<rparr>]]"
    by auto
  from nodeFormatter_false_releases
         [where w = one_cell and idx = 0 and k = 0 and c = ?c
            and col = "node_col (writes_cell Undefined)" and nf = "writes_cell Undefined"
            and m = ann and data = "attributes ann" and keep = Undefined
            and data' = "attributes ann" and w' = ?w3] h f [of Undefined] n
  have "node_cell (node_col (writes_cell Undefined)) 0 ann 0 (attributes ann) one_cell
            = Inr (attributes ann, ?w3)"
    by simp
  then have b: "\<exists>w'. node_cell (node_col (writes_cell Undefined)) 0 ann 0 (attributes ann) one_cell
            = Inr (attributes ann, w')
       \<and> Td 0 0 \<in> cache w' \<and> Liner 0 0 \<in> cache w'
       \<and> rows w' = [[\<lparr> markup = ''Ann'', has_liner = True \<rparr>]]"
    by (simp add: Y_one_def)
  have c: "\<not> cached (render one_row (node_view (writes_cell (Bool False)))) (Td 0 0)"
    by code_simp
  have d: "cached (render one_row (node_view (writes_cell Undefined))) (Td 0 0)"
    by code_simp
  have e: "cell_markups (render one_row (node_view (writes_cell (Bool False)))) = [[''Ann'']]"
    by code_simp
  from a b c d e show ?thesis by blast
qed

end
